theory Spec2Isabelle
  imports Complex_Main
begin

section \<open>The tax and penalty calculator of \<^verbatim>\<open>backend/utils/calculator.py\<close>\<close>

text \<open>
  This theory embeds the class \<^verbatim>\<open>TaxCalculator\<close>: the two tax calculators
  \<^verbatim>\<open>calculate_tib\<close> and \<^verbatim>\<open>calculate_ttnb\<close>, the rounding helper \<^verbatim>\<open>_round\<close>, the
  band lookup \<^verbatim>\<open>_get_service_rate\<close> and the late-payment penalty
  \<^verbatim>\<open>compute_late_payment_penalty_for_year\<close>.

  Conventions of the embedding.
  \<^item> Python's \<^verbatim>\<open>float\<close> is modelled by the exact rationals: every float is finite and
    arithmetic has no binary rounding error. \<^verbatim>\<open>round(x, n)\<close> is rounding to \<open>n\<close> decimals
    with ties to the even neighbour.
  \<^item> The attributes the calculators read are dynamically typed, so they are values of
    \<open>pyval\<close>; truthiness, \<^verbatim>\<open>float()\<close>, \<^verbatim>\<open>.lower()\<close> and \<^verbatim>\<open>.strip()\<close> are written out,
    with the exception Python raises as the \<open>Inl\<close> branch of the result.
  \<^item> A result dictionary is an association list from keys to values.
  \<^item> Everything the code obtains from outside the Python source is a field of the
    record \<open>env\<close>: the rounding precision read from the tariff file, Python's
    parser of floats in strings, the two \<^verbatim>\<open>count()\<close> queries on the table of municipal
    services, and the clock.
  \<^item> A string is a list of 8-bit characters; case mapping and whitespace are those of
    ASCII, and the two letters of the messages outside ASCII are written as their bytes
    in UTF-8.
  \<^item> The objects passed to the calculators carry every attribute that is read (as the
    models \<^verbatim>\<open>Property\<close> and \<^verbatim>\<open>Land\<close> and the objects of the public estimate do), so the
    defaults of \<^verbatim>\<open>getattr\<close> are never used; an attribute set to \<^verbatim>\<open>None\<close> is \<open>PyNone\<close>.
\<close>

subsection \<open>Python values\<close>

datatype pyerr = TypeError | ValueError | AttributeError

datatype pyval =
    PyNone
  | PyBool bool
  | PyInt int
  | PyFloat rat
  | PyStr string
  | PyList "pyval list"

type_synonym pydict = "(string \<times> pyval) list"

text \<open>Truthiness, as tested by \<^verbatim>\<open>if x\<close> and \<^verbatim>\<open>not x\<close>.\<close>

fun py_truthy :: "pyval \<Rightarrow> bool" where
  "py_truthy PyNone = False"
| "py_truthy (PyBool b) = b"
| "py_truthy (PyInt i) = (i \<noteq> 0)"
| "py_truthy (PyFloat r) = (r \<noteq> 0)"
| "py_truthy (PyStr s) = (s \<noteq> [])"
| "py_truthy (PyList xs) = (xs \<noteq> [])"

text \<open>\<^verbatim>\<open>' '.isspace()\<close> on ASCII, and \<^verbatim>\<open>str.strip()\<close>.\<close>

definition py_isspace :: "char \<Rightarrow> bool" where
  "py_isspace c = (c \<in> set [CHR 0x09, CHR 0x0A, CHR 0x0B, CHR 0x0C, CHR 0x0D,
                             CHR 0x1C, CHR 0x1D, CHR 0x1E, CHR 0x1F, CHR '' ''])"

definition py_strip :: "string \<Rightarrow> string" where
  "py_strip s = rev (dropWhile py_isspace (rev (dropWhile py_isspace s)))"

text \<open>\<^verbatim>\<open>str.lower()\<close> on ASCII letters.\<close>

definition lower_char :: "char \<Rightarrow> char" where
  "lower_char c =
     (let n = of_char c :: nat in if 65 \<le> n \<and> n \<le> 90 then char_of (n + 32) else c)"

definition py_lower :: "string \<Rightarrow> string" where
  "py_lower s = map lower_char s"

subsection \<open>The environment\<close>

text \<open>
  \<^verbatim>\<open>datetime\<close>: the fields of a naive timestamp. Two timestamps compare
  lexicographically on (year, month, day, hour, minute, second, microsecond).
\<close>

record datetime =
  year :: int
  month :: int
  day :: int
  hour :: int
  minute :: int
  second :: int
  microsecond :: int

record env =
  currency_decimals :: "string \<Rightarrow> int"
  float_of_str :: "string \<Rightarrow> rat option"
  locality_services :: "int option \<Rightarrow> string \<Rightarrow> nat"
  commune_services :: "int option \<Rightarrow> nat"
  utcnow :: datetime

text \<open>
  \<^item> \<open>currency_decimals e section\<close> is
    \<^verbatim>\<open>int(cfg.get(section, {}).get('rounding', {}).get('currency_decimals', 3))\<close> for the
    configuration \<^verbatim>\<open>_load_config\<close> returns. The tariff file is not part of the sources;
    without it \<^verbatim>\<open>_load_config\<close> installs 3 decimals for every section.
  \<^item> \<open>float_of_str e s\<close> is Python's \<^verbatim>\<open>float(s)\<close> on a string, \<open>None\<close> when it raises
    \<^verbatim>\<open>ValueError\<close>.
  \<^item> \<open>locality_services e c n\<close> is the \<^verbatim>\<open>count()\<close> of the rows of
    \<^verbatim>\<open>MunicipalServiceConfig\<close> with \<^verbatim>\<open>commune_id = c\<close>, \<^verbatim>\<open>is_available = True\<close> and
    \<^verbatim>\<open>locality_name ILIKE n\<close>; \<open>commune_services e c\<close> counts the rows with
    \<^verbatim>\<open>commune_id = c\<close>, \<^verbatim>\<open>is_available = True\<close> and \<^verbatim>\<open>locality_name IS NULL\<close>.
  \<^item> \<open>utcnow e\<close> is \<^verbatim>\<open>datetime.utcnow()\<close>.
\<close>

definition default_decimals :: "string \<Rightarrow> int" where
  "default_decimals section = 3"

text \<open>\<^verbatim>\<open>float(v)\<close>.\<close>

fun py_float :: "env \<Rightarrow> pyval \<Rightarrow> pyerr + rat" where
  "py_float e PyNone = Inl TypeError"
| "py_float e (PyBool b) = Inr (if b then 1 else 0)"
| "py_float e (PyInt i) = Inr (of_int i)"
| "py_float e (PyFloat r) = Inr r"
| "py_float e (PyStr s) = (case float_of_str e s of None \<Rightarrow> Inl ValueError | Some r \<Rightarrow> Inr r)"
| "py_float e (PyList xs) = Inl TypeError"

subsection \<open>Rounding\<close>

definition round_half_even :: "rat \<Rightarrow> int" where
  "round_half_even x =
     (let f = \<lfloor>x\<rfloor>; r = x - of_int f
      in if r < 1 / 2 then f else if 1 / 2 < r then f + 1 else if even f then f else f + 1)"

text \<open>\<^verbatim>\<open>round(x, n)\<close> for a float \<open>x\<close> and an integer \<open>n\<close> (which may be negative).\<close>

definition py_round :: "rat \<Rightarrow> int \<Rightarrow> rat" where
  "py_round x n =
     (if 0 \<le> n then of_int (round_half_even (x * 10 ^ nat n)) / 10 ^ nat n
      else of_int (round_half_even (x / 10 ^ nat (- n))) * 10 ^ nat (- n))"

text \<open>\<^verbatim>\<open>_round(amount, section)\<close>.\<close>

definition cls_round :: "env \<Rightarrow> rat \<Rightarrow> string \<Rightarrow> rat" where
  "cls_round e amount section = py_round amount (currency_decimals e section)"

subsection \<open>The service rate\<close>

text \<open>
  \<^verbatim>\<open>_get_service_rate(num_services)\<close>, over the list of bands
  \<^verbatim>\<open>cfg['TIB']['service_rates']\<close> given as pairs (\<^verbatim>\<open>min_services\<close>, \<^verbatim>\<open>rate_percent\<close>): the
  loop keeps the rate of the last band whose threshold the count reaches.
\<close>

fun service_rate_loop :: "(int \<times> rat) list \<Rightarrow> int \<Rightarrow> rat \<Rightarrow> rat" where
  "service_rate_loop [] num_services applicable = applicable"
| "service_rate_loop ((min_services, rate_percent) # bands) num_services applicable =
     service_rate_loop bands num_services
       (if num_services \<ge> min_services then rate_percent else applicable)"

definition get_service_rate :: "(int \<times> rat) list \<Rightarrow> int \<Rightarrow> rat" where
  "get_service_rate bands num_services = service_rate_loop bands num_services 0 / 100"

text \<open>The bands \<^verbatim>\<open>_load_config\<close> installs when the tariff file gives none.\<close>

definition default_service_rates :: "(int \<times> rat) list" where
  "default_service_rates = [(0, 8), (2, 10), (3, 12), (4, 14)]"

text \<open>Step 5 of \<^verbatim>\<open>calculate_tib\<close>: the rate chosen by the chain of comparisons.\<close>

definition tib_service_rate :: "nat \<Rightarrow> rat" where
  "tib_service_rate services_count =
     (if services_count \<le> 2 then 8 / 100
      else if services_count \<le> 4 then 10 / 100
      else if services_count \<le> 6 then 12 / 100
      else 14 / 100)"

subsection \<open>\<^verbatim>\<open>calculate_tib\<close>\<close>

text \<open>
  The attributes of the property that \<^verbatim>\<open>calculate_tib\<close> reads. \<open>commune_id\<close> is only
  handed to the query, as an integer key or \<^verbatim>\<open>None\<close>.
\<close>

record property_obj =
  is_exempt :: pyval
  exemption_reason :: pyval
  surface_couverte :: pyval
  reference_price_per_m2 :: pyval
  commune_id :: "int option"
  delegation :: pyval

text \<open>The dictionary both calculators return for an exempt asset.\<close>

definition exempt_result :: "pyval \<Rightarrow> pydict" where
  "exempt_result reason =
     [(''base_amount'', PyFloat 0), (''rate_percent'', PyFloat 0),
      (''tax_amount'', PyFloat 0), (''total_amount'', PyFloat 0),
      (''exemption_reason'', reason)]"

text \<open>Step 1: the category of the covered surface.\<close>

definition tib_category :: "rat \<Rightarrow> int" where
  "tib_category surface =
     (if surface \<le> 100 then 1 else if surface \<le> 200 then 2
      else if surface \<le> 400 then 3 else 4)"

text \<open>\<^verbatim>\<open>f'{category}'\<close> for the four categories.\<close>

definition category_str :: "int \<Rightarrow> string" where
  "category_str category =
     (if category = 1 then ''1'' else if category = 2 then ''2''
      else if category = 3 then ''3'' else ''4'')"

text \<open>\<^verbatim>\<open>(getattr(property_obj, 'delegation', None) or '').strip()\<close>.\<close>

fun locality_name_of :: "pyval \<Rightarrow> pyerr + string" where
  "locality_name_of (PyStr s) = Inr (py_strip s)"
| "locality_name_of v = (if py_truthy v then Inl AttributeError else Inr [])"

text \<open>Step 4: the number of services of the property's locality, else of its commune.\<close>

definition count_services :: "env \<Rightarrow> property_obj \<Rightarrow> pyerr + nat" where
  "count_services e p =
     (case locality_name_of (delegation p) of
        Inl err \<Rightarrow> Inl err
      | Inr locality_name \<Rightarrow>
          (let services_count =
                 (if locality_name \<noteq> [] then locality_services e (commune_id p) locality_name
                  else 0)
           in Inr (if services_count = 0 then commune_services e (commune_id p)
                   else services_count)))"

definition calculate_tib :: "env \<Rightarrow> property_obj \<Rightarrow> pyerr + pydict" where
  "calculate_tib e p =
     (if py_truthy (is_exempt p) then Inr (exempt_result (exemption_reason p))
      else case py_float e (surface_couverte p) of
        Inl err \<Rightarrow> Inl err
      | Inr surface \<Rightarrow>
          (let category = tib_category surface
           in if py_truthy (reference_price_per_m2 p) then
                (case py_float e (reference_price_per_m2 p) of
                   Inl err \<Rightarrow> Inl err
                 | Inr ref_price \<Rightarrow>
                     (let assiette = (2 / 100) * (ref_price * surface)
                      in case count_services e p of
                           Inl err \<Rightarrow> Inl err
                         | Inr services_count \<Rightarrow>
                             (let service_rate = tib_service_rate services_count;
                                  tib_amount = assiette * service_rate
                              in Inr [(''base_amount'', PyFloat (cls_round e assiette ''TIB'')),
                                      (''rate_percent'', PyFloat (service_rate * 100)),
                                      (''tax_amount'', PyFloat (cls_round e tib_amount ''TIB'')),
                                      (''total_amount'', PyFloat (cls_round e tib_amount ''TIB'')),
                                      (''category'', PyInt category),
                                      (''services_count'', PyInt (int services_count))])))
              else Inr [(''error'',
                         PyStr (''Reference price per m'' @ [CHR 0xC2, CHR 0xB2]
                                @ '' required for category '' @ category_str category))]))"

subsection \<open>\<^verbatim>\<open>calculate_ttnb\<close>\<close>

text \<open>
  The attributes of the land that \<^verbatim>\<open>calculate_ttnb\<close> reads: \<^verbatim>\<open>is_exempt\<close>,
  \<^verbatim>\<open>exemption_reason\<close>, \<^verbatim>\<open>urban_zone\<close> and \<^verbatim>\<open>surface\<close>.
\<close>

record land_obj =
  land_is_exempt :: pyval
  land_exemption_reason :: pyval
  urban_zone :: pyval
  surface :: pyval

text \<open>The dictionary \<^verbatim>\<open>ZONE_TARIFFS\<close>, in its order of insertion.\<close>

definition ZONE_TARIFFS :: "(string \<times> rat) list" where
  "ZONE_TARIFFS =
     [(''haute_densite'', 12 / 10), (''densite_moyenne'', 8 / 10),
      (''faible_densite'', 4 / 10), (''peripherique'', 2 / 10)]"

definition valid_zones :: pyval where
  "valid_zones = PyList (map (\<lambda>(k, v). PyStr k) ZONE_TARIFFS)"

text \<open>
  \<^verbatim>\<open>ZONE_TARIFFS.get(urban_zone.lower())\<close> followed by the test \<^verbatim>\<open>not tariff\<close>: \<open>None\<close>
  stands for a missing key and for a tariff of zero alike.
\<close>

definition zone_tariff :: "string \<Rightarrow> rat option" where
  "zone_tariff zone =
     (case map_of ZONE_TARIFFS (py_lower zone) of
        None \<Rightarrow> None
      | Some tariff \<Rightarrow> if tariff = 0 then None else Some tariff)"

definition calculate_ttnb :: "env \<Rightarrow> land_obj \<Rightarrow> pyerr + pydict" where
  "calculate_ttnb e l =
     (if py_truthy (land_is_exempt l) then Inr (exempt_result (land_exemption_reason l))
      else if py_truthy (urban_zone l) then
        (case urban_zone l of
           PyStr zone \<Rightarrow>
             (case zone_tariff zone of
                None \<Rightarrow> Inr [(''error'', PyStr (''Invalid urban zone: '' @ zone)),
                              (''valid_zones'', valid_zones)]
              | Some tariff \<Rightarrow>
                  (case py_float e (surface l) of
                     Inl err \<Rightarrow> Inl err
                   | Inr surface_m2 \<Rightarrow>
                       if surface_m2 \<le> 0 then
                         Inr [(''error'', PyStr ''Land surface must be greater than 0'')]
                       else
                         (let ttnb_amount = surface_m2 * tariff
                          in Inr [(''base_amount'', PyFloat (cls_round e ttnb_amount ''TTNB'')),
                                  (''rate_percent'', PyFloat 0),
                                  (''tax_amount'', PyFloat (cls_round e ttnb_amount ''TTNB'')),
                                  (''total_amount'', PyFloat (cls_round e ttnb_amount ''TTNB'')),
                                  (''zone'', PyStr zone),
                                  (''tariff_per_m2'', PyFloat tariff),
                                  (''surface_m2'', PyFloat surface_m2)])))
         | _ \<Rightarrow> Inl AttributeError)
      else Inr [(''error'', PyStr ''Urban zone classification required''),
                (''valid_zones'', valid_zones),
                (''message'',
                 PyStr (''TTNB cannot be calculated without urban zone classification per D''
                        @ [CHR 0xC3, CHR 0xA9] @ ''cret 2017-396''))])"

subsection \<open>\<^verbatim>\<open>compute_late_payment_penalty_for_year\<close>\<close>









subsection \<open>Concrete inputs\<close>

text \<open>
  An environment with the default rounding of 3 decimals, no service recorded for any
  locality and three commune-wide services. None of the inputs below holds a number
  written as a string, so its parser of floats is never consulted.
\<close>

definition example_env :: env where
  "example_env =
     \<lparr>currency_decimals = default_decimals, float_of_str = (\<lambda>s. None),
      locality_services = (\<lambda>c n. 0), commune_services = (\<lambda>c. 3),
      utcnow = \<lparr>year = 2026, month = 11, day = 4, hour = 9, minute = 30, second = 0,
                 microsecond = 0\<rparr>\<rparr>"

text \<open>The property of the specification's example: 150 square metres at 200 TND each.\<close>

definition example_property :: property_obj where
  "example_property =
     \<lparr>is_exempt = PyBool False, exemption_reason = PyNone, surface_couverte = PyFloat 150,
      reference_price_per_m2 = PyFloat 200, commune_id = Some 1, delegation = PyNone\<rparr>"

text \<open>The land of the specification's example: 5000 square metres in a low-density zone.\<close>

definition example_land :: land_obj where
  "example_land =
     \<lparr>land_is_exempt = PyBool False, land_exemption_reason = PyNone,
      urban_zone = PyStr ''faible_densite'', surface = PyFloat 5000\<rparr>"


subsection \<open>The bands of the specification\<close>


subsection \<open>Whole calendar months, in the words of the specification\<close>


section \<open>Properties\<close>

subsection \<open>Exemption\<close>

text \<open>
  Claim C8. When \<^verbatim>\<open>is_exempt\<close> is set, either calculator returns the dictionary whose
  four amounts are 0 and whose \<^verbatim>\<open>exemption_reason\<close> is the input's, whatever the other
  attributes are (a missing price, a missing zone, a surface that is no number); the
  dictionary has no \<^verbatim>\<open>error\<close> key.
\<close>

theorem exempt_short_circuit:
  "(py_truthy (is_exempt p) \<longrightarrow>
      calculate_tib e p =
        Inr [(''base_amount'', PyFloat 0), (''rate_percent'', PyFloat 0),
             (''tax_amount'', PyFloat 0), (''total_amount'', PyFloat 0),
             (''exemption_reason'', exemption_reason p)]) \<and>
   (py_truthy (land_is_exempt l) \<longrightarrow>
      calculate_ttnb e l =
        Inr [(''base_amount'', PyFloat 0), (''rate_percent'', PyFloat 0),
             (''tax_amount'', PyFloat 0), (''total_amount'', PyFloat 0),
             (''exemption_reason'', land_exemption_reason l)]) \<and>
   map_of (exempt_result r) ''error'' = None"
  by (simp add: calculate_tib_def calculate_ttnb_def exempt_result_def)

theorem exempt_short_circuit_witness:
  "py_truthy (PyBool True) \<and>
   calculate_tib example_env
     (example_property\<lparr>is_exempt := PyBool True, exemption_reason := PyStr ''mosque'',
                       surface_couverte := PyNone, reference_price_per_m2 := PyNone\<rparr>) =
     Inr [(''base_amount'', PyFloat 0), (''rate_percent'', PyFloat 0),
          (''tax_amount'', PyFloat 0), (''total_amount'', PyFloat 0),
          (''exemption_reason'', PyStr ''mosque'')] \<and>
   calculate_ttnb example_env
     (example_land\<lparr>land_is_exempt := PyBool True, urban_zone := PyNone\<rparr>) =
     Inr [(''base_amount'', PyFloat 0), (''rate_percent'', PyFloat 0),
          (''tax_amount'', PyFloat 0), (''total_amount'', PyFloat 0),
          (''exemption_reason'', PyNone)]"
  using exempt_short_circuit
    [of "example_property\<lparr>is_exempt := PyBool True, exemption_reason := PyStr ''mosque'',
                           surface_couverte := PyNone, reference_price_per_m2 := PyNone\<rparr>"
        example_env
        "example_land\<lparr>land_is_exempt := PyBool True, urban_zone := PyNone\<rparr>"]
  by (simp add: example_property_def example_land_def)

subsection \<open>A reference price that is absent or zero\<close>

text \<open>
  Claim C10. For a property that is not exempt and whose covered surface is a number,
  a reference price of 0 (integer or float), \<^verbatim>\<open>None\<close>, the empty string or the empty list
  makes \<^verbatim>\<open>calculate_tib\<close> return the dictionary that holds only the \<^verbatim>\<open>error\<close> key, with the
  message that names the category of the surface: zero is not a price.
\<close>

theorem zero_reference_price_is_missing:
  assumes "\<not> py_truthy (is_exempt p)"
    and "py_float e (surface_couverte p) = Inr s"
    and "reference_price_per_m2 p \<in> {PyInt 0, PyFloat 0, PyNone, PyStr [], PyList []}"
  shows "calculate_tib e p =
           Inr [(''error'',
                 PyStr (''Reference price per m'' @ [CHR 0xC2, CHR 0xB2]
                        @ '' required for category '' @ category_str (tib_category s)))]"
proof -
  from assms(3) have "\<not> py_truthy (reference_price_per_m2 p)"
    by auto
  with assms(1,2) show ?thesis
    by (simp add: calculate_tib_def)
qed

theorem zero_reference_price_is_missing_witness:
  "\<not> py_truthy (PyBool False) \<and>
   py_float example_env (PyFloat 150) = Inr 150 \<and>
   calculate_tib example_env (example_property\<lparr>reference_price_per_m2 := PyFloat 0\<rparr>) =
     Inr [(''error'',
           PyStr (''Reference price per m'' @ [CHR 0xC2, CHR 0xB2]
                  @ '' required for category 2''))]"
  using zero_reference_price_is_missing
    [of "example_property\<lparr>reference_price_per_m2 := PyFloat 0\<rparr>" example_env 150]
  by (simp add: example_property_def tib_category_def category_str_def)

subsection \<open>The successful path of \<^verbatim>\<open>calculate_tib\<close>\<close>






subsection \<open>The service rate\<close>



subsection \<open>Evaluating the rounding\<close>

lemma floor_rat_numeral_div:
  "\<lfloor>numeral a / numeral b :: rat\<rfloor> = numeral a div numeral b"
  "\<lfloor>- (numeral a / numeral b) :: rat\<rfloor> = - numeral a div numeral b"
  by (metis floor_divide_of_int_eq of_int_numeral)
     (metis floor_divide_of_int_eq of_int_numeral of_int_minus minus_divide_left)

lemmas round_simps = py_round_def round_half_even_def Let_def floor_rat_numeral_div

subsection \<open>The formula of \<^verbatim>\<open>calculate_tib\<close>\<close>




subsection \<open>The formula of \<^verbatim>\<open>calculate_ttnb\<close>\<close>

lemma zone_tariff_keys:
  "zone_tariff ''haute_densite'' = Some (12 / 10)"
  "zone_tariff ''densite_moyenne'' = Some (8 / 10)"
  "zone_tariff ''faible_densite'' = Some (4 / 10)"
  "zone_tariff ''peripherique'' = Some (2 / 10)"
  by (simp_all add: zone_tariff_def ZONE_TARIFFS_def py_lower_def lower_char_def)


lemma zone_tariff_None_iff:
  "zone_tariff z = None \<longleftrightarrow>
     py_lower z \<notin> {''haute_densite'', ''densite_moyenne'', ''faible_densite'', ''peripherique''}"
  by (simp add: zone_tariff_def ZONE_TARIFFS_def)

lemma lower_unknown_zone: "py_lower ''unknown_zone'' = ''unknown_zone''"
  by (simp add: py_lower_def lower_char_def)

lemma lower_upper_case_zone: "py_lower ''HAUTE_DENSITE'' = ''haute_densite''"
  by code_simp




subsection \<open>A zone that is missing or unknown\<close>

text \<open>
  Claim C9, with the comparison the code makes. For a land that is not exempt,
  \<^verbatim>\<open>calculate_ttnb\<close> returns a dictionary with the \<^verbatim>\<open>error\<close> key and the list of the four
  valid zones, and without \<^verbatim>\<open>tax_amount\<close>, when the zone is \<^verbatim>\<open>None\<close> or empty, and when
  it is a string whose lower-case form is none of the four keys.
\<close>

theorem invalid_zone_rejected:
  assumes "\<not> py_truthy (land_is_exempt l)"
  shows "(\<not> py_truthy (urban_zone l) \<longrightarrow>
            calculate_ttnb e l =
              Inr [(''error'', PyStr ''Urban zone classification required''),
                   (''valid_zones'',
                    PyList [PyStr ''haute_densite'', PyStr ''densite_moyenne'',
                            PyStr ''faible_densite'', PyStr ''peripherique'']),
                   (''message'',
                    PyStr (''TTNB cannot be calculated without urban zone classification per D''
                           @ [CHR 0xC3, CHR 0xA9] @ ''cret 2017-396''))]) \<and>
         (\<forall>z. urban_zone l = PyStr z \<and> z \<noteq> [] \<and>
               py_lower z \<notin> {''haute_densite'', ''densite_moyenne'', ''faible_densite'',
                               ''peripherique''} \<longrightarrow>
            calculate_ttnb e l =
              Inr [(''error'', PyStr (''Invalid urban zone: '' @ z)),
                   (''valid_zones'',
                    PyList [PyStr ''haute_densite'', PyStr ''densite_moyenne'',
                            PyStr ''faible_densite'', PyStr ''peripherique''])])"
proof (intro conjI allI impI)
  assume "\<not> py_truthy (urban_zone l)"
  with assms show "calculate_ttnb e l =
              Inr [(''error'', PyStr ''Urban zone classification required''),
                   (''valid_zones'',
                    PyList [PyStr ''haute_densite'', PyStr ''densite_moyenne'',
                            PyStr ''faible_densite'', PyStr ''peripherique'']),
                   (''message'',
                    PyStr (''TTNB cannot be calculated without urban zone classification per D''
                           @ [CHR 0xC3, CHR 0xA9] @ ''cret 2017-396''))]"
    by (simp add: calculate_ttnb_def valid_zones_def ZONE_TARIFFS_def)
next
  fix z
  assume h: "urban_zone l = PyStr z \<and> z \<noteq> [] \<and>
               py_lower z \<notin> {''haute_densite'', ''densite_moyenne'', ''faible_densite'',
                               ''peripherique''}"
  then have "zone_tariff z = None"
    by (simp add: zone_tariff_None_iff)
  with assms h show "calculate_ttnb e l =
              Inr [(''error'', PyStr (''Invalid urban zone: '' @ z)),
                   (''valid_zones'',
                    PyList [PyStr ''haute_densite'', PyStr ''densite_moyenne'',
                            PyStr ''faible_densite'', PyStr ''peripherique''])]"
    by (simp add: calculate_ttnb_def valid_zones_def ZONE_TARIFFS_def)
qed

theorem invalid_zone_rejected_witness:
  "\<not> py_truthy (land_is_exempt example_land) \<and>
   \<not> py_truthy PyNone \<and>
   calculate_ttnb example_env (example_land\<lparr>urban_zone := PyNone\<rparr>) =
     Inr [(''error'', PyStr ''Urban zone classification required''),
          (''valid_zones'',
           PyList [PyStr ''haute_densite'', PyStr ''densite_moyenne'',
                   PyStr ''faible_densite'', PyStr ''peripherique'']),
          (''message'',
           PyStr (''TTNB cannot be calculated without urban zone classification per D''
                  @ [CHR 0xC3, CHR 0xA9] @ ''cret 2017-396''))] \<and>
   py_lower ''unknown_zone'' \<notin> {''haute_densite'', ''densite_moyenne'', ''faible_densite'',
                                  ''peripherique''} \<and>
   calculate_ttnb example_env (example_land\<lparr>urban_zone := PyStr ''unknown_zone''\<rparr>) =
     Inr [(''error'', PyStr ''Invalid urban zone: unknown_zone''),
          (''valid_zones'',
           PyList [PyStr ''haute_densite'', PyStr ''densite_moyenne'',
                   PyStr ''faible_densite'', PyStr ''peripherique''])]"
  using invalid_zone_rejected [of "example_land\<lparr>urban_zone := PyNone\<rparr>" example_env]
    invalid_zone_rejected [of "example_land\<lparr>urban_zone := PyStr ''unknown_zone''\<rparr>" example_env]
  by (simp add: example_land_def lower_unknown_zone)

text \<open>
  Claim C9 as written compares the zone itself with the four keys. The code compares
  its lower-case form: \<^verbatim>\<open>HAUTE_DENSITE\<close> is none of the four keys and is taxed at the
  tariff of \<^verbatim>\<open>haute_densite\<close>. A zone that is not a string, such as the number 5, has
  no \<^verbatim>\<open>lower\<close> method: the call raises \<^verbatim>\<open>AttributeError\<close>.
\<close>

theorem zone_matched_without_case:
  "''HAUTE_DENSITE'' \<notin> {''haute_densite'', ''densite_moyenne'', ''faible_densite'',
                          ''peripherique''} \<and>
   calculate_ttnb example_env
     (example_land\<lparr>urban_zone := PyStr ''HAUTE_DENSITE'', surface := PyFloat 100\<rparr>) =
     Inr [(''base_amount'', PyFloat 120), (''rate_percent'', PyFloat 0),
          (''tax_amount'', PyFloat 120), (''total_amount'', PyFloat 120),
          (''zone'', PyStr ''HAUTE_DENSITE''), (''tariff_per_m2'', PyFloat (12 / 10)),
          (''surface_m2'', PyFloat 100)] \<and>
   calculate_ttnb example_env (example_land\<lparr>urban_zone := PyInt 5\<rparr>) = Inl AttributeError"
  by (simp add: calculate_ttnb_def example_env_def example_land_def default_decimals_def
      cls_round_def round_simps zone_tariff_def ZONE_TARIFFS_def lower_upper_case_zone)

subsection \<open>A surface that is not positive\<close>

text \<open>
  Claim C5 fails for \<^verbatim>\<open>calculate_tib\<close>. It never compares the covered surface with 0:
  a surface of -10 square metres yields a tax of -4 and a surface of 0 a tax of 0,
  where \<^verbatim>\<open>calculate_ttnb\<close> returns its error for the same surface.
\<close>

theorem tib_accepts_nonpositive_surface:
  "calculate_tib example_env (example_property\<lparr>surface_couverte := PyFloat (- 10)\<rparr>) =
     Inr [(''base_amount'', PyFloat (- 40)), (''rate_percent'', PyFloat 10),
          (''tax_amount'', PyFloat (- 4)), (''total_amount'', PyFloat (- 4)),
          (''category'', PyInt 1), (''services_count'', PyInt 3)] \<and>
   calculate_tib example_env (example_property\<lparr>surface_couverte := PyFloat 0\<rparr>) =
     Inr [(''base_amount'', PyFloat 0), (''rate_percent'', PyFloat 10),
          (''tax_amount'', PyFloat 0), (''total_amount'', PyFloat 0),
          (''category'', PyInt 1), (''services_count'', PyInt 3)] \<and>
   calculate_ttnb example_env (example_land\<lparr>surface := PyFloat (- 10)\<rparr>) =
     Inr [(''error'', PyStr ''Land surface must be greater than 0'')]"
  by (simp add: calculate_tib_def calculate_ttnb_def example_env_def example_property_def
      example_land_def default_decimals_def cls_round_def round_simps count_services_def
      tib_service_rate_def tib_category_def zone_tariff_keys)

subsection \<open>The late-payment penalty\<close>















subsection \<open>What the results depend on\<close>






subsection \<open>Results and exceptions\<close>




subsection \<open>Further facts about the bands\<close>

text \<open>
  The categories at the edges of the bands of the covered surface: 100 square metres
  fall in category 1 and 100.01 in category 2, 400 in category 3 and 400.01 in
  category 4.
\<close>

lemma tib_category_edges:
  "tib_category 100 = 1 \<and> tib_category (10001 / 100) = 2 \<and> tib_category 200 = 2 \<and>
   tib_category (20001 / 100) = 3 \<and> tib_category 400 = 3 \<and> tib_category (40001 / 100) = 4"
  by (simp add: tib_category_def)

text \<open>
  \<^verbatim>\<open>_get_service_rate\<close> over the default bands is another banding than the chain of
  comparisons in \<^verbatim>\<open>calculate_tib\<close>, which does not call it: it reaches 10 percent at 2
  services and 14 percent at 4.
\<close>

lemma get_service_rate_default:
  "get_service_rate default_service_rates n =
     (if n < 0 then 0 else if n < 2 then 8 / 100 else if n < 3 then 10 / 100
      else if n < 4 then 12 / 100 else 14 / 100)"
  by (simp add: get_service_rate_def default_service_rates_def)

lemma get_service_rate_default_differs:
  "get_service_rate default_service_rates 2 = 10 / 100 \<and> tib_service_rate 2 = 8 / 100"
  by (simp add: get_service_rate_def default_service_rates_def tib_service_rate_def)

end
